theory Spec2Isabelle
  imports Complex_Main "HOL-Library.Word"
begin

section \<open>DCAM4SetProperty: the MEX function around \<open>dcamprop_setvalue\<close>\<close>

text \<open>
  The unit is one C++ function, \<^verbatim>\<open>mexFunction\<close> of
  \<^verbatim>\<open>source/MIC/DCAM4/DCAM4SetProperty/mexFunction.cpp\<close>. It reads three inputs from the
  host's argument array, converts them to the types of the camera SDK, calls
  \<^verbatim>\<open>dcamprop_setvalue\<close> once and prints a diagnostic when \<^verbatim>\<open>failed(error)\<close> holds.

  The embedding keeps the statements of the source in their order. What the source takes
  from elsewhere is made explicit:
  \<^item> the SDK (\<^verbatim>\<open>dcamprop_setvalue\<close> and the predicate \<^verbatim>\<open>failed\<close> of its header) is a
    parameter, a record of two functions over an arbitrary device state;
  \<^item> the host's array accessors \<^verbatim>\<open>mxGetUint64s\<close> and \<^verbatim>\<open>mxGetScalar\<close> follow the
    documentation of the MEX C Matrix API;
  \<^item> the width of \<^verbatim>\<open>unsigned long\<close> is a parameter (the data model): 32 bits under
    LLP64 (64-bit Windows, the platform of \<^verbatim>\<open>stdafx.h\<close>), 64 bits under LP64;
  \<^item> a read that C leaves undefined (an argument slot that was not supplied, a null or
    empty buffer, a conversion out of range) is a \<open>fault\<close> value.
\<close>

subsection \<open>Scalars\<close>

text \<open>\<^verbatim>\<open>HDCAM\<close> is a pointer, 64 bits wide; \<^verbatim>\<open>int32\<close> and \<^verbatim>\<open>DCAMERR\<close> are 32 bits wide.\<close>

type_synonym hdcam = "64 word"
type_synonym int32 = "32 word"
type_synonym dcamerr = "32 word"

text \<open>
  A \<^verbatim>\<open>double\<close> by its value: a finite number, an infinity or a NaN. (The sign of a zero
  is not kept; no statement below depends on it.)
\<close>

datatype mxdouble = Finite real | PlusInf | MinusInf | NaN

datatype data_model = LLP64 | LP64

fun ulong_bits :: "data_model \<Rightarrow> nat" where
  "ulong_bits LLP64 = 32"
| "ulong_bits LP64 = 64"

subsection \<open>The host's arrays\<close>

text \<open>
  An \<^verbatim>\<open>mxArray\<close> by its class and its (real) elements in storage order. \<open>MxOther\<close>
  stands for the classes without numeric elements (cell, struct, function handle).
\<close>

datatype mxArray =
    MxDouble "mxdouble list"
  | MxSingle "mxdouble list"
  | MxInt8 "8 word list"
  | MxUint8 "8 word list"
  | MxInt16 "16 word list"
  | MxUint16 "16 word list"
  | MxInt32 "32 word list"
  | MxUint32 "32 word list"
  | MxInt64 "64 word list"
  | MxUint64 "64 word list"
  | MxLogical "bool list"
  | MxChar "16 word list"
  | MxOther

datatype fault =
    Input_out_of_range nat   \<comment> \<open>\<^verbatim>\<open>prhs[i]\<close> read beyond the arguments supplied\<close>
  | Null_pointer_read        \<comment> \<open>\<^verbatim>\<open>mHandle[0]\<close> with \<^verbatim>\<open>mHandle\<close> null\<close>
  | Buffer_out_of_range      \<comment> \<open>\<^verbatim>\<open>mHandle[0]\<close> on a buffer with no element\<close>
  | Scalar_undefined         \<comment> \<open>\<^verbatim>\<open>mxGetScalar\<close> on an empty or non-numeric array\<close>
  | Cast_out_of_range        \<comment> \<open>\<^verbatim>\<open>(int32)\<close> of a double outside the range of \<^verbatim>\<open>int32\<close>\<close>

definition prhs_at :: "mxArray list \<Rightarrow> nat \<Rightarrow> fault + mxArray" where
  "prhs_at prhs i = (if i < length prhs then Inr (prhs ! i) else Inl (Input_out_of_range i))"

text \<open>
  \<^verbatim>\<open>mxGetUint64s\<close> returns the data pointer of a real \<^verbatim>\<open>uint64\<close> array and a null pointer
  for every other class.
\<close>

definition mxGetUint64s :: "mxArray \<Rightarrow> 64 word list option" where
  "mxGetUint64s a = (case a of MxUint64 ws \<Rightarrow> Some ws | _ \<Rightarrow> None)"

text \<open>
  \<^verbatim>\<open>mHandle[0]\<close> through an \<^verbatim>\<open>unsigned long*\<close>: the first \<open>ulong_bits\<close> bits of the buffer,
  which on a little-endian machine are the low bits of its first 64-bit element. The value
  is given zero-extended to 64 bits, which is also what the cast to \<^verbatim>\<open>HDCAM\<close> makes of it.
\<close>

definition read_ulong0 :: "data_model \<Rightarrow> 64 word list option \<Rightarrow> fault + 64 word" where
  "read_ulong0 dm p =
     (case p of
        None \<Rightarrow> Inl Null_pointer_read
      | Some [] \<Rightarrow> Inl Buffer_out_of_range
      | Some (w # _) \<Rightarrow> Inr (take_bit (ulong_bits dm) w))"

text \<open>
  Conversion of an integer to \<^verbatim>\<open>double\<close>: exact below \<open>2 ^ 53\<close>, otherwise rounded to 53
  significant bits, ties to even.
\<close>

function excess_bits :: "nat \<Rightarrow> nat" where
  "excess_bits a = (if a < 2 ^ 53 then 0 else Suc (excess_bits (a div 2)))"
  by pat_completeness auto
termination
  by (relation "measure id") auto

declare excess_bits.simps [simp del]

definition round_binary64 :: "nat \<Rightarrow> nat" where
  "round_binary64 a =
     (let s = excess_bits a; q = a div 2 ^ s; r = a mod 2 ^ s
      in if s = 0 then a
         else if 2 ^ s < 2 * r \<or> (2 * r = 2 ^ s \<and> odd q) then (q + 1) * 2 ^ s
         else q * 2 ^ s)"

definition double_of_int :: "int \<Rightarrow> mxdouble" where
  "double_of_int n = Finite (of_int (sgn n * int (round_binary64 (nat \<bar>n\<bar>))))"

definition first_elem :: "'a list \<Rightarrow> fault + 'a" where
  "first_elem xs = (case xs of [] \<Rightarrow> Inl Scalar_undefined | x # _ \<Rightarrow> Inr x)"

text \<open>
  \<^verbatim>\<open>mxGetScalar\<close>: the first element of the array, converted to \<^verbatim>\<open>double\<close>. The array must
  not be empty and must not be a cell or a struct.
\<close>

definition mxGetScalar :: "mxArray \<Rightarrow> fault + mxdouble" where
  "mxGetScalar a =
     (case a of
        MxDouble ds \<Rightarrow> first_elem ds
      | MxSingle ds \<Rightarrow> first_elem ds
      | MxInt8 ws \<Rightarrow> map_sum id (\<lambda>w. double_of_int (sint w)) (first_elem ws)
      | MxUint8 ws \<Rightarrow> map_sum id (\<lambda>w. double_of_int (uint w)) (first_elem ws)
      | MxInt16 ws \<Rightarrow> map_sum id (\<lambda>w. double_of_int (sint w)) (first_elem ws)
      | MxUint16 ws \<Rightarrow> map_sum id (\<lambda>w. double_of_int (uint w)) (first_elem ws)
      | MxInt32 ws \<Rightarrow> map_sum id (\<lambda>w. double_of_int (sint w)) (first_elem ws)
      | MxUint32 ws \<Rightarrow> map_sum id (\<lambda>w. double_of_int (uint w)) (first_elem ws)
      | MxInt64 ws \<Rightarrow> map_sum id (\<lambda>w. double_of_int (sint w)) (first_elem ws)
      | MxUint64 ws \<Rightarrow> map_sum id (\<lambda>w. double_of_int (uint w)) (first_elem ws)
      | MxLogical bs \<Rightarrow> map_sum id (\<lambda>b. Finite (if b then 1 else 0)) (first_elem bs)
      | MxChar cs \<Rightarrow> map_sum id (\<lambda>c. double_of_int (uint c)) (first_elem cs)
      | MxOther \<Rightarrow> Inl Scalar_undefined)"

text \<open>
  The cast \<^verbatim>\<open>(int32)\<close> of a \<^verbatim>\<open>double\<close> drops the fraction (rounds toward zero); C defines
  it only when the result is in the range of \<^verbatim>\<open>int32\<close>.
\<close>

definition trunc_toward_zero :: "real \<Rightarrow> int" where
  "trunc_toward_zero x = (if 0 \<le> x then \<lfloor>x\<rfloor> else - \<lfloor>- x\<rfloor>)"

definition int32_of_double :: "mxdouble \<Rightarrow> fault + int32" where
  "int32_of_double d =
     (case d of
        Finite x \<Rightarrow>
          (let t = trunc_toward_zero x
           in if - (2 ^ 31) \<le> t \<and> t < 2 ^ 31 then Inr (word_of_int t) else Inl Cast_out_of_range)
      | _ \<Rightarrow> Inl Cast_out_of_range)"

subsection \<open>The SDK, the console and the world around a call\<close>

record 'dev dcam_sdk =
  dcamprop_setvalue :: "'dev \<Rightarrow> hdcam \<Rightarrow> int32 \<Rightarrow> mxdouble \<Rightarrow> dcamerr \<times> 'dev"
  failed :: "dcamerr \<Rightarrow> bool"

text \<open>What an observer (a mock SDK, the console) sees, in order.\<close>

datatype event =
    Dcamprop_setvalue hdcam int32 mxdouble
  | MexPrintf string

record 'dev world =
  device :: 'dev
  trace :: "event list"

subsection \<open>\<^verbatim>\<open>printf\<close> with \<^verbatim>\<open>%08lX\<close>\<close>

definition hex_digit :: "nat \<Rightarrow> char" where
  "hex_digit d = ''0123456789ABCDEF'' ! d"

text \<open>\<^verbatim>\<open>%lX\<close>: the upper-case hexadecimal digits of the value, as many as it needs.\<close>

function hex_upper :: "nat \<Rightarrow> string" where
  "hex_upper n =
     (if n < 16 then [hex_digit n] else hex_upper (n div 16) @ [hex_digit (n mod 16)])"
  by pat_completeness auto
termination
  by (relation "measure id") auto

declare hex_upper.simps [simp del]

text \<open>The flag \<^verbatim>\<open>0\<close> with the width 8: zeros on the left up to at least 8 characters.\<close>

definition pad_zero :: "nat \<Rightarrow> string \<Rightarrow> string" where
  "pad_zero width s = replicate (width - length s) CHR ''0'' @ s"

text \<open>
  The text \<^verbatim>\<open>mexPrintf("Error = 0x%08lX\ndcamprop_setvalue() failed.\n", error)\<close> writes. The
  argument is the 32-bit code, read as an unsigned number.
\<close>

definition error_message :: "dcamerr \<Rightarrow> string" where
  "error_message error =
     ''Error = 0x'' @ pad_zero 8 (hex_upper (unat error)) @ ''\<newline>dcamprop_setvalue() failed.\<newline>''"

definition mexPrintf :: "string \<Rightarrow> 'dev world \<Rightarrow> 'dev world" where
  "mexPrintf s w = w\<lparr>trace := trace w @ [MexPrintf s]\<rparr>"

subsection \<open>\<^verbatim>\<open>mexFunction\<close>\<close>

text \<open>
  Lines 14 to 17 of the source: the three reads, in the order of the statements; a fault
  ends the run where it happens (\<open>and_then\<close>).
  \<^verbatim>\<open>
  mHandle = (unsigned long*)mxGetUint64s(prhs[0]);
  handle = (HDCAM)mHandle[0];
  propertyID = (int32)mxGetScalar(prhs[1]);
  propertyValue = (double)mxGetScalar(prhs[2]);
  \<close>
\<close>

definition and_then :: "fault + 'a \<Rightarrow> ('a \<Rightarrow> fault + 'b) \<Rightarrow> fault + 'b" where
  "and_then r k = (case r of Inl f \<Rightarrow> Inl f | Inr x \<Rightarrow> k x)"

definition read_inputs :: "data_model \<Rightarrow> mxArray list \<Rightarrow> fault + (hdcam \<times> int32 \<times> mxdouble)" where
  "read_inputs dm prhs =
     and_then (prhs_at prhs 0) (\<lambda>a0.
     and_then (read_ulong0 dm (mxGetUint64s a0)) (\<lambda>handle.
     and_then (prhs_at prhs 1) (\<lambda>a1.
     and_then (mxGetScalar a1) (\<lambda>d1.
     and_then (int32_of_double d1) (\<lambda>propertyID.
     and_then (prhs_at prhs 2) (\<lambda>a2.
     and_then (mxGetScalar a2) (\<lambda>propertyValue.
     Inr (handle, propertyID, propertyValue))))))))"

text \<open>
  Lines 20 to 27: the call, the test of its result and the diagnostic.
  \<^verbatim>\<open>
  error = dcamprop_setvalue(handle, propertyID, propertyValue);
  if (failed(error)) { mexPrintf("Error = 0x%08lX\ndcamprop_setvalue() failed.\n", error); }
  return;
  \<close>
\<close>

definition call_sdk :: "'dev dcam_sdk \<Rightarrow> hdcam \<Rightarrow> int32 \<Rightarrow> mxdouble \<Rightarrow> 'dev world \<Rightarrow> 'dev world" where
  "call_sdk sdk handle propertyID propertyValue w =
     (let (error, dev') = dcamprop_setvalue sdk (device w) handle propertyID propertyValue;
          w1 = w\<lparr>device := dev',
                 trace := trace w @ [Dcamprop_setvalue handle propertyID propertyValue]\<rparr>
      in if failed sdk error then mexPrintf (error_message error) w1 else w1)"

text \<open>
  The whole function, with the parameters of the source: \<open>nlhs\<close> and \<open>plhs\<close> (the output
  slots), \<open>nrhs\<close> and \<open>prhs\<close> (the inputs; the list holds the arguments that were really
  supplied). The result is a fault, or the output slots and the world after the return.
\<close>

definition mexFunction ::
  "data_model \<Rightarrow> 'dev dcam_sdk \<Rightarrow> int \<Rightarrow> mxArray option list \<Rightarrow> int \<Rightarrow> mxArray list \<Rightarrow>
     'dev world \<Rightarrow> fault + (mxArray option list \<times> 'dev world)" where
  "mexFunction dm sdk nlhs plhs nrhs prhs w =
     (case read_inputs dm prhs of
        Inl f \<Rightarrow> Inl f
      | Inr (handle, propertyID, propertyValue) \<Rightarrow>
          Inr (plhs, call_sdk sdk handle propertyID propertyValue w))"

subsection \<open>What a run shows\<close>

text \<open>The SDK calls of a trace, as a mock SDK records them, and the text on the console.\<close>

fun sdk_calls :: "event list \<Rightarrow> (hdcam \<times> int32 \<times> mxdouble) list" where
  "sdk_calls [] = []"
| "sdk_calls (Dcamprop_setvalue h p v # es) = (h, p, v) # sdk_calls es"
| "sdk_calls (MexPrintf s # es) = sdk_calls es"

fun console :: "event list \<Rightarrow> string" where
  "console [] = []"
| "console (Dcamprop_setvalue h p v # es) = console es"
| "console (MexPrintf s # es) = s @ console es"

text \<open>
  The observable behaviour of one run that started in world \<open>w\<close>: the fault, or the events
  the run added to the trace.
\<close>

definition observation ::
  "'dev world \<Rightarrow> fault + (mxArray option list \<times> 'dev world) \<Rightarrow> fault + event list" where
  "observation w r = map_sum id (\<lambda>(plhs', w'). drop (length (trace w)) (trace w')) r"

subsection \<open>The diagnostic as the specification words it\<close>

text \<open>
  The eight-digit, zero-padded, upper-case hexadecimal representation of a 32-bit code:
  digit \<open>i\<close> counted from the right is \<open>code div 16 ^ i mod 16\<close>.
\<close>

definition hex8 :: "dcamerr \<Rightarrow> string" where
  "hex8 c = map (\<lambda>i. hex_digit (unat c div 16 ^ i mod 16)) [7, 6, 5, 4, 3, 2, 1, 0]"

text \<open>Reading a hexadecimal numeral back.\<close>

definition digit_value :: "char \<Rightarrow> nat" where
  "digit_value ch = length (takeWhile (\<lambda>x. x \<noteq> ch) ''0123456789ABCDEF'')"

definition hex_value :: "string \<Rightarrow> nat" where
  "hex_value s = foldl (\<lambda>a ch. 16 * a + digit_value ch) 0 s"

text \<open>The representation with \<open>k\<close> digits, digit by digit from the right (used in proofs).\<close>

fun hex_fixed :: "nat \<Rightarrow> nat \<Rightarrow> string" where
  "hex_fixed 0 n = []"
| "hex_fixed (Suc k) n = hex_fixed k (n div 16) @ [hex_digit (n mod 16)]"

subsection \<open>The property identifier as the specification words it\<close>



subsection \<open>A mock SDK and the inputs of the specification's scenarios\<close>

text \<open>
  A mock SDK with no device state: every call returns the code \<open>e\<close>. Its \<open>failed\<close> takes the
  codes with the sign bit set as failures, so \<open>0\<close> is a success and \<open>0x80000001\<close> a failure,
  as in the scenarios of the specification.
\<close>

definition mock_sdk :: "dcamerr \<Rightarrow> unit dcam_sdk" where
  "mock_sdk e = \<lparr>dcamprop_setvalue = (\<lambda>dev h p v. (e, dev)), failed = (\<lambda>c. sint c < 0)\<rparr>"

text \<open>
  A recording SDK: every call returns the code \<open>e\<close> and puts its arguments in front of the
  device state, so that the device state lists the calls the SDK really received, the
  latest first.
\<close>

definition recording_sdk :: "dcamerr \<Rightarrow> (hdcam \<times> int32 \<times> mxdouble) list dcam_sdk" where
  "recording_sdk e =
     \<lparr>dcamprop_setvalue = (\<lambda>dev h p v. (e, (h, p, v) # dev)), failed = (\<lambda>c. sint c < 0)\<rparr>"

definition idle :: "unit world" where
  "idle = \<lparr>device = (), trace = []\<rparr>"

text \<open>\<open>(handle = 0x1A2B3C4D, propertyId = 8, value = 1.0)\<close>.\<close>

definition scenario :: "mxArray list" where
  "scenario = [MxUint64 [0x1A2B3C4D], MxDouble [Finite 8], MxDouble [Finite 1]]"

text \<open>The same with a handle that needs 33 bits.\<close>

definition wide_handle :: "mxArray list" where
  "wide_handle = [MxUint64 [0x100000000], MxDouble [Finite 8], MxDouble [Finite 1]]"

section \<open>Lemmas\<close>

subsection \<open>Conversions\<close>







subsection \<open>The \<^verbatim>\<open>%08lX\<close> directive on a 32-bit code\<close>

lemma length_hex_fixed: "length (hex_fixed k n) = k"
  by (induction k arbitrary: n) simp_all

lemma hex_fixed_zero: "hex_fixed k 0 = replicate k CHR ''0''"
proof (induction k)
  case 0
  show ?case by simp
next
  case (Suc k)
  have "hex_digit 0 = CHR ''0''" by (simp add: hex_digit_def)
  with Suc show ?case by (simp add: replicate_append_same)
qed

lemma length_hex_upper: "n < 16 ^ Suc k \<Longrightarrow> length (hex_upper n) \<le> Suc k"
proof (induction k arbitrary: n)
  case 0
  then show ?case by (subst hex_upper.simps) simp
next
  case (Suc k)
  show ?case
  proof (cases "n < 16")
    case True
    then show ?thesis by (subst hex_upper.simps) simp
  next
    case False
    from Suc.prems have "n div 16 < 16 ^ Suc k" by (simp add: less_mult_imp_div_less)
    then have "length (hex_upper (n div 16)) \<le> Suc k" by (rule Suc.IH)
    with False show ?thesis by (subst hex_upper.simps) simp
  qed
qed

lemma pad_zero_hex_upper:
  "n < 16 ^ Suc k \<Longrightarrow> pad_zero (Suc k) (hex_upper n) = hex_fixed (Suc k) n"
proof (induction k arbitrary: n)
  case 0
  then show ?case by (subst hex_upper.simps) (simp add: pad_zero_def)
next
  case (Suc k)
  show ?case
  proof (cases "n < 16")
    case True
    then have "hex_upper n = [hex_digit n]" by (subst hex_upper.simps) simp
    moreover from True have "n div 16 = 0" "n mod 16 = n" by simp_all
    ultimately show ?thesis
      by (simp add: pad_zero_def hex_fixed_zero del: replicate_Suc)
  next
    case False
    from Suc.prems have lt: "n div 16 < 16 ^ Suc k" by (simp add: less_mult_imp_div_less)
    then have len: "length (hex_upper (n div 16)) \<le> Suc k" by (rule length_hex_upper)
    from False have unf: "hex_upper n = hex_upper (n div 16) @ [hex_digit (n mod 16)]"
      by (subst hex_upper.simps) simp
    have "pad_zero (Suc (Suc k)) (hex_upper n)
        = pad_zero (Suc k) (hex_upper (n div 16)) @ [hex_digit (n mod 16)]"
      using len by (simp add: unf pad_zero_def Suc_diff_le)
    also have "\<dots> = hex_fixed (Suc k) (n div 16) @ [hex_digit (n mod 16)]"
      using Suc.IH [OF lt] by simp
    finally show ?thesis by simp
  qed
qed

lemma upt_8_rev: "rev [0..<8] = [7, 6, 5, 4, 3, 2, 1, 0::nat]"
  by code_simp

lemma hex_fixed_digits:
  "hex_fixed k n = map (\<lambda>i. hex_digit (n div 16 ^ i mod 16)) (rev [0..<k])"
proof (induction k arbitrary: n)
  case 0
  show ?case by simp
next
  case (Suc k)
  have "[0..<Suc k] = 0 # map Suc [0..<k]"
    by (simp add: upt_conv_Cons map_Suc_upt del: upt_Suc)
  then have "rev [0..<Suc k] = map Suc (rev [0..<k]) @ [0]"
    by (simp add: rev_map)
  then show ?case
    by (simp add: Suc.IH div_mult2_eq del: upt_Suc)
qed

lemma hex_fixed_8:
  "hex_fixed 8 n = map (\<lambda>i. hex_digit (n div 16 ^ i mod 16)) [7, 6, 5, 4, 3, 2, 1, 0]"
  by (simp only: hex_fixed_digits upt_8_rev)

lemma hex8_hex_fixed: "hex8 c = hex_fixed 8 (unat c)"
  by (simp add: hex8_def hex_fixed_8 del: hex_fixed.simps)

lemma unat_dcamerr_less: "unat c < 16 ^ Suc 7" for c :: dcamerr
  using unsigned_less [of c] by simp

lemma printf_08lX: "pad_zero 8 (hex_upper (unat c)) = hex8 c" for c :: dcamerr
proof -
  have "pad_zero (Suc 7) (hex_upper (unat c)) = hex_fixed (Suc 7) (unat c)"
    using unat_dcamerr_less by (rule pad_zero_hex_upper)
  then show ?thesis by (simp add: hex8_hex_fixed del: hex_fixed.simps)
qed

lemma error_message_hex8:
  "error_message c = ''Error = 0x'' @ hex8 c @ ''\<newline>dcamprop_setvalue() failed.\<newline>''"
  by (simp add: error_message_def printf_08lX)

lemma digit_value_below_16: "\<forall>d<16. digit_value (hex_digit d) = d"
  by (simp add: eval_nat_numeral less_Suc_eq digit_value_def hex_digit_def)

lemma digit_value_hex_digit: "d < 16 \<Longrightarrow> digit_value (hex_digit d) = d"
  using digit_value_below_16 by simp

lemma hex_value_snoc: "hex_value (s @ [ch]) = 16 * hex_value s + digit_value ch"
  by (simp add: hex_value_def)

lemma hex_value_hex_fixed: "hex_value (hex_fixed k n) = n mod 16 ^ k"
proof (induction k arbitrary: n)
  case 0
  show ?case by (simp add: hex_value_def)
next
  case (Suc k)
  have "hex_value (hex_fixed (Suc k) n) = 16 * (n div 16 mod 16 ^ k) + n mod 16"
    by (simp add: hex_value_snoc Suc.IH digit_value_hex_digit)
  also have "\<dots> = n mod 16 ^ Suc k"
    by (simp add: mod_mult2_eq)
  finally show ?case .
qed

lemma hex_value_hex8: "hex_value (hex8 c) = unat c"
proof -
  have "hex_value (hex8 c) = unat c mod 16 ^ 8"
    by (simp only: hex8_hex_fixed hex_value_hex_fixed)
  with unat_dcamerr_less [of c] show ?thesis by simp
qed

lemma length_hex8: "length (hex8 c) = 8"
  by (simp add: hex8_def)

subsection \<open>Traces\<close>

lemma sdk_calls_append: "sdk_calls (es @ fs) = sdk_calls es @ sdk_calls fs"
  by (induction es rule: sdk_calls.induct) simp_all

lemma console_append: "console (es @ fs) = console es @ console fs"
  by (induction es rule: console.induct) simp_all

lemma trace_call_sdk:
  "trace (call_sdk sdk h p v w) =
     trace w @ Dcamprop_setvalue h p v #
       (if failed sdk (fst (dcamprop_setvalue sdk (device w) h p v))
        then [MexPrintf (error_message (fst (dcamprop_setvalue sdk (device w) h p v)))]
        else [])"
  by (simp add: call_sdk_def mexPrintf_def Let_def split: prod.split)

lemma device_call_sdk:
  "device (call_sdk sdk h p v w) = snd (dcamprop_setvalue sdk (device w) h p v)"
  by (simp add: call_sdk_def mexPrintf_def Let_def split: prod.split)

lemma sdk_calls_call_sdk:
  "sdk_calls (trace (call_sdk sdk h p v w)) = sdk_calls (trace w) @ [(h, p, v)]"
  by (simp add: trace_call_sdk sdk_calls_append)

lemma console_call_sdk:
  "console (trace (call_sdk sdk h p v w)) =
     console (trace w) @
       (if failed sdk (fst (dcamprop_setvalue sdk (device w) h p v))
        then error_message (fst (dcamprop_setvalue sdk (device w) h p v)) else [])"
  by (simp add: trace_call_sdk console_append)

subsection \<open>The run in terms of what was read\<close>

lemma mexFunction_read:
  "read_inputs dm prhs = Inr (h, p, v) \<Longrightarrow>
   mexFunction dm sdk nlhs plhs nrhs prhs w = Inr (plhs, call_sdk sdk h p v w)"
  by (simp add: mexFunction_def)

lemma mexFunction_fault:
  "read_inputs dm prhs = Inl f \<Longrightarrow> mexFunction dm sdk nlhs plhs nrhs prhs w = Inl f"
  by (simp add: mexFunction_def)

lemma read_inputs_three:
  "read_inputs dm (a0 # a1 # a2 # rest) =
     and_then (read_ulong0 dm (mxGetUint64s a0)) (\<lambda>handle.
     and_then (mxGetScalar a1) (\<lambda>d1.
     and_then (int32_of_double d1) (\<lambda>propertyID.
     and_then (mxGetScalar a2) (\<lambda>propertyValue.
     Inr (handle, propertyID, propertyValue)))))"
  by (simp add: read_inputs_def prhs_at_def and_then_def)

lemma prhs_at_take: "i < 3 \<Longrightarrow> prhs_at (take 3 prhs) i = prhs_at prhs i"
  by (simp add: prhs_at_def)

lemma read_inputs_take: "read_inputs dm (take 3 prhs) = read_inputs dm prhs"
  by (simp add: read_inputs_def prhs_at_take)

lemma and_then_Inl: "and_then (Inl f) k = Inl f"
  by (simp add: and_then_def)

lemma isl_and_then: "isl (and_then r k) \<longleftrightarrow> isl r \<or> isl (k (projr r))"
  by (cases r) (simp_all add: and_then_def)

lemma read_inputs_short: "length prhs < 3 \<Longrightarrow> \<exists>f. read_inputs dm prhs = Inl f"
proof -
  assume "length prhs < 3"
  then have "prhs_at prhs 2 = Inl (Input_out_of_range 2)" by (simp add: prhs_at_def)
  then have "isl (read_inputs dm prhs)"
    by (simp add: read_inputs_def isl_and_then)
  then show ?thesis by (simp add: isl_def)
qed

subsection \<open>The handle\<close>

lemma read_ulong0_uint64:
  "read_ulong0 dm (mxGetUint64s (MxUint64 (x # xs))) = Inr (take_bit (ulong_bits dm) x)"
  by (simp add: read_ulong0_def mxGetUint64s_def)

text \<open>Where \<^verbatim>\<open>unsigned long\<close> has 64 bits, and for a handle that fits it, the read is exact.\<close>

lemma read_ulong0_lp64: "read_ulong0 LP64 (mxGetUint64s (MxUint64 (x # xs))) = Inr x"
  by (simp add: read_ulong0_uint64 take_bit_word_eq_self)

lemma read_ulong0_fits:
  "x < 2 ^ ulong_bits dm \<Longrightarrow> read_ulong0 dm (mxGetUint64s (MxUint64 (x # xs))) = Inr x"
  by (simp add: read_ulong0_uint64 less_mask_eq take_bit_eq_mask)

section \<open>The claims\<close>

subsection \<open>The scenarios, read\<close>

lemma read_scenario: "read_inputs dm scenario = Inr (0x1A2B3C4D, 8, Finite 1)"
  by (cases dm)
     (simp_all add: scenario_def read_inputs_three read_ulong0_uint64 and_then_def mxGetScalar_def
        first_elem_def int32_of_double_def trunc_toward_zero_def)

lemma read_wide_handle_llp64: "read_inputs LLP64 wide_handle = Inr (0, 8, Finite 1)"
  by (simp add: wide_handle_def read_inputs_three read_ulong0_uint64 and_then_def mxGetScalar_def
        first_elem_def int32_of_double_def trunc_toward_zero_def)

lemma read_wide_handle_lp64: "read_inputs LP64 wide_handle = Inr (0x100000000, 8, Finite 1)"
  by (simp add: wide_handle_def read_inputs_three read_ulong0_uint64 and_then_def mxGetScalar_def
        first_elem_def int32_of_double_def trunc_toward_zero_def)

lemma mock_sdk_simps:
  "dcamprop_setvalue (mock_sdk e) dev h p v = (e, dev)"
  "failed (mock_sdk e) c \<longleftrightarrow> sint c < 0"
  by (simp_all add: mock_sdk_def)

text \<open>
  A run whose SDK call succeeds adds the call to the trace and nothing else (the reads
  having succeeded with the triple \<open>(h, p, v)\<close>).
\<close>

lemma success_run:
  "read_inputs dm prhs = Inr (h, p, v) \<Longrightarrow>
   \<not> failed sdk (fst (dcamprop_setvalue sdk (device w) h p v)) \<Longrightarrow>
   \<exists>w'. mexFunction dm sdk nlhs plhs nrhs prhs w = Inr (plhs, w') \<and>
        trace w' = trace w @ [Dcamprop_setvalue h p v]"
  by (simp add: mexFunction_read trace_call_sdk)

subsection \<open>C1 and C4: the handle\<close>

text \<open>
  C1. For every input triple for which the SDK call returns success, the shim invokes the
  SDK's set-property operation exactly once, with arguments numerically equal to the inputs,
  and emits no diagnostic. The run below is one where that fails: under LLP64, where
  \<^verbatim>\<open>unsigned long\<close> has 32 bits, the handle \<open>0x100000000\<close> reaches the SDK as \<open>0\<close>. The
  call is made once and nothing is printed (\<open>success_run\<close> shows that in general); the
  handle argument is not the input.
\<close>

theorem C1_wide_handle_success_run_llp64:
  "mexFunction LLP64 (mock_sdk 0) 0 [] 3 wide_handle idle =
     Inr ([], \<lparr>device = (), trace = [Dcamprop_setvalue 0 8 (Finite 1)]\<rparr>)"
  by (simp add: mexFunction_read [OF read_wide_handle_llp64] call_sdk_def mock_sdk_simps idle_def)

text \<open>
  C4. For every 64-bit unsigned handle input, the handle passed to the SDK call is
  numerically identical to the input, with no truncation. Under LLP64 the source reads the
  handle through an \<^verbatim>\<open>unsigned long*\<close> and so keeps its low 32 bits only: whatever the SDK
  and the world, the handle \<open>0x100000000\<close> is passed as \<open>0\<close>. (\<open>read_ulong0_lp64\<close> and
  \<open>read_ulong0_fits\<close> show the read exact under LP64 and for handles below \<open>2 ^ 32\<close>.)
\<close>

theorem C4_wide_handle_truncated_llp64:
  "\<exists>w'. mexFunction LLP64 sdk nlhs plhs nrhs wide_handle w = Inr (plhs, w') \<and>
        sdk_calls (trace w') = sdk_calls (trace w) @ [(0, 8, Finite 1)]"
  by (simp add: mexFunction_read [OF read_wide_handle_llp64] sdk_calls_call_sdk)

subsection \<open>C2: the diagnostic\<close>

text \<open>
  C2. For every invocation in which the SDK call returns a failure code, the shim writes a
  diagnostic whose text is exactly \<open>Error = 0x\<close>, the eight-digit zero-padded hexadecimal
  representation of the code, a newline, \<open>dcamprop_setvalue() failed.\<close> and a newline.
  The eight digits are \<open>hex8\<close> of the code, which has length 8 and reads back as the code.
\<close>

theorem C2_diagnostic_text:
  assumes "read_inputs dm prhs = Inr (h, p, v)"
    and "dcamprop_setvalue sdk (device w) h p v = (error, dev')"
    and "failed sdk error"
  shows "\<exists>w'. mexFunction dm sdk nlhs plhs nrhs prhs w = Inr (plhs, w') \<and>
           trace w' = trace w @
             [Dcamprop_setvalue h p v,
              MexPrintf (''Error = 0x'' @ hex8 error @ ''\<newline>dcamprop_setvalue() failed.\<newline>'')] \<and>
           length (hex8 error) = 8 \<and> hex_value (hex8 error) = unat error"
  using assms
  by (simp add: mexFunction_read trace_call_sdk error_message_hex8 length_hex8 hex_value_hex8)

theorem C2_diagnostic_text_witness:
  "read_inputs LLP64 scenario = Inr (0x1A2B3C4D, 8, Finite 1) \<and>
   failed (mock_sdk 0x80000001) 0x80000001 \<and>
   (\<exists>w'. mexFunction LLP64 (mock_sdk 0x80000001) 0 [] 3 scenario idle = Inr ([], w') \<and>
         trace w' =
           [Dcamprop_setvalue 0x1A2B3C4D 8 (Finite 1),
            MexPrintf ''Error = 0x80000001\<newline>dcamprop_setvalue() failed.\<newline>''])"
proof -
  have r: "read_inputs LLP64 scenario = Inr (0x1A2B3C4D, 8, Finite 1)"
    by (rule read_scenario)
  have c: "dcamprop_setvalue (mock_sdk 0x80000001) (device idle) 0x1A2B3C4D 8 (Finite 1)
             = (0x80000001, ())"
    by (simp add: mock_sdk_simps)
  have f: "failed (mock_sdk 0x80000001) 0x80000001"
    by (simp add: mock_sdk_simps)
  have h: "hex8 0x80000001 = ''80000001''"
    by (simp add: hex8_def hex_digit_def)
  from C2_diagnostic_text [OF r c f, of 0 "[]" 3]
  obtain w' where "mexFunction LLP64 (mock_sdk 0x80000001) 0 [] 3 scenario idle = Inr ([], w')"
    and "trace w' = trace idle @
           [Dcamprop_setvalue 0x1A2B3C4D 8 (Finite 1),
            MexPrintf (''Error = 0x'' @ hex8 0x80000001 @ ''\<newline>dcamprop_setvalue() failed.\<newline>'')]"
    by blast
  then have "\<exists>w'. mexFunction LLP64 (mock_sdk 0x80000001) 0 [] 3 scenario idle = Inr ([], w') \<and>
         trace w' =
           [Dcamprop_setvalue 0x1A2B3C4D 8 (Finite 1),
            MexPrintf ''Error = 0x80000001\<newline>dcamprop_setvalue() failed.\<newline>'']"
    by (simp add: h idle_def)
  with r f show ?thesis by simp
qed

subsection \<open>C3: failures are absorbed\<close>

text \<open>
  C3. For every invocation (with inputs that can be read) and every SDK result code, the
  shim propagates no error to the caller: the run returns normally, with the output slots
  as they were, after the one SDK call and at most one diagnostic.
\<close>

theorem C3_failure_absorbed:
  assumes "read_inputs dm prhs = Inr (h, p, v)"
  shows "\<exists>w'. mexFunction dm sdk nlhs plhs nrhs prhs w = Inr (plhs, w') \<and>
           (trace w' = trace w @ [Dcamprop_setvalue h p v] \<or>
            (\<exists>s. trace w' = trace w @ [Dcamprop_setvalue h p v, MexPrintf s]))"
  using assms by (simp add: mexFunction_read trace_call_sdk)

theorem C3_failure_absorbed_witness:
  "read_inputs LLP64 scenario = Inr (0x1A2B3C4D, 8, Finite 1) \<and>
   (\<exists>w'. mexFunction LLP64 (mock_sdk 0x80000001) 0 [] 3 scenario idle = Inr ([], w') \<and>
         (trace w' = trace idle @ [Dcamprop_setvalue 0x1A2B3C4D 8 (Finite 1)] \<or>
          (\<exists>s. trace w' = trace idle @ [Dcamprop_setvalue 0x1A2B3C4D 8 (Finite 1), MexPrintf s])))"
  using C3_failure_absorbed [OF read_scenario, of LLP64 "mock_sdk 0x80000001" 0 "[]" 3 idle]
    read_scenario [of LLP64]
  by simp

subsection \<open>C5: the property identifier\<close>





subsection \<open>C6: no output value\<close>

text \<open>
  C6. For every invocation and on both the success and the failure path, the shim produces
  no output value: whenever the run returns, the output slots are the ones it was given,
  and it returns so whenever the three inputs can be read, whatever the SDK answers.
\<close>

theorem C6_no_output_value:
  "(\<forall>plhs' w'. mexFunction dm sdk nlhs plhs nrhs prhs w = Inr (plhs', w') \<longrightarrow> plhs' = plhs) \<and>
   (\<forall>h p v. read_inputs dm prhs = Inr (h, p, v) \<longrightarrow>
      (\<exists>w'. mexFunction dm sdk nlhs plhs nrhs prhs w = Inr (plhs, w')))"
  by (auto simp: mexFunction_def split: sum.splits)

theorem C6_no_output_value_witness:
  "(\<exists>w'. mexFunction LLP64 (mock_sdk 0) 1 [None] 3 scenario idle = Inr ([None], w')) \<and>
   (\<exists>w'. mexFunction LLP64 (mock_sdk 0x80000001) 1 [None] 3 scenario idle = Inr ([None], w'))"
  using C6_no_output_value [of LLP64 "mock_sdk 0" 1 "[None]" 3 scenario idle]
    C6_no_output_value [of LLP64 "mock_sdk 0x80000001" 1 "[None]" 3 scenario idle]
    read_scenario [of LLP64]
  by blast

subsection \<open>C7: one call per invocation, no state kept\<close>

text \<open>
  C7. For every invocation, whatever the SDK result code, exactly one SDK call is issued
  (never a retry), and nothing is kept between invocations. The SDK is applied once per
  run: the device state after a run is the one that a single application of
  \<^verbatim>\<open>dcamprop_setvalue\<close> to the state before gives, and the trace gains that one call. A
  second invocation with the same arguments, started in the world the first one left,
  applies the SDK once more, to the state the first call left and with the same arguments.
\<close>

theorem C7_two_runs:
  assumes "read_inputs dm prhs = Inr (h, p, v)"
  shows "\<exists>w1 w2.
           mexFunction dm sdk nlhs plhs nrhs prhs w = Inr (plhs, w1) \<and>
           device w1 = snd (dcamprop_setvalue sdk (device w) h p v) \<and>
           sdk_calls (trace w1) = sdk_calls (trace w) @ [(h, p, v)] \<and>
           mexFunction dm sdk nlhs plhs nrhs prhs w1 = Inr (plhs, w2) \<and>
           device w2 = snd (dcamprop_setvalue sdk (device w1) h p v) \<and>
           sdk_calls (trace w2) = sdk_calls (trace w1) @ [(h, p, v)]"
  using assms by (simp add: mexFunction_read device_call_sdk sdk_calls_call_sdk)

theorem C7_two_runs_witness:
  "read_inputs LLP64 scenario = Inr (0x1A2B3C4D, 8, Finite 1) \<and>
   (\<exists>w1 w2.
      mexFunction LLP64 (recording_sdk 0x80000001) 0 [] 3 scenario \<lparr>device = [], trace = []\<rparr>
        = Inr ([], w1) \<and>
      device w1 = [(0x1A2B3C4D, 8, Finite 1)] \<and>
      sdk_calls (trace w1) = [(0x1A2B3C4D, 8, Finite 1)] \<and>
      mexFunction LLP64 (recording_sdk 0x80000001) 0 [] 3 scenario w1 = Inr ([], w2) \<and>
      device w2 = [(0x1A2B3C4D, 8, Finite 1), (0x1A2B3C4D, 8, Finite 1)] \<and>
      sdk_calls (trace w2) = [(0x1A2B3C4D, 8, Finite 1), (0x1A2B3C4D, 8, Finite 1)])"
proof -
  have r: "read_inputs LLP64 scenario = Inr (0x1A2B3C4D, 8, Finite 1)"
    by (rule read_scenario)
  have s: "snd (dcamprop_setvalue (recording_sdk 0x80000001) dev h p v) = (h, p, v) # dev"
    for dev h p v
    by (simp add: recording_sdk_def)
  from C7_two_runs [OF r, of "recording_sdk 0x80000001" 0 "[]" 3 "\<lparr>device = [], trace = []\<rparr>"]
  have "\<exists>w1 w2.
      mexFunction LLP64 (recording_sdk 0x80000001) 0 [] 3 scenario \<lparr>device = [], trace = []\<rparr>
        = Inr ([], w1) \<and>
      device w1 = [(0x1A2B3C4D, 8, Finite 1)] \<and>
      sdk_calls (trace w1) = [(0x1A2B3C4D, 8, Finite 1)] \<and>
      mexFunction LLP64 (recording_sdk 0x80000001) 0 [] 3 scenario w1 = Inr ([], w2) \<and>
      device w2 = [(0x1A2B3C4D, 8, Finite 1), (0x1A2B3C4D, 8, Finite 1)] \<and>
      sdk_calls (trace w2) = [(0x1A2B3C4D, 8, Finite 1), (0x1A2B3C4D, 8, Finite 1)]"
    by (elim exE conjE, intro exI conjI) (simp_all add: s)
  with r show ?thesis by (rule conjI)
qed

subsection \<open>C8: the device is touched by the one call only\<close>

text \<open>
  C8. The device handle is read-only in this unit and no SDK entry point other than the
  single set-property call is invoked: the inputs are values the run only reads, the state
  of the device after the run is the one that call returned, and that call is the only SDK
  call the run adds to the trace.
\<close>

theorem C8_device_frame:
  assumes "read_inputs dm prhs = Inr (h, p, v)"
  shows "\<exists>w'. mexFunction dm sdk nlhs plhs nrhs prhs w = Inr (plhs, w') \<and>
           device w' = snd (dcamprop_setvalue sdk (device w) h p v) \<and>
           sdk_calls (trace w') = sdk_calls (trace w) @ [(h, p, v)]"
  using assms by (simp add: mexFunction_read device_call_sdk sdk_calls_call_sdk)

theorem C8_device_frame_witness:
  "read_inputs LLP64 scenario = Inr (0x1A2B3C4D, 8, Finite 1) \<and>
   (\<exists>w'. mexFunction LLP64
           \<lparr>dcamprop_setvalue = (\<lambda>dev h p v. (0, (p, v) # dev)), failed = (\<lambda>c. sint c < 0)\<rparr>
           0 [] 3 scenario \<lparr>device = [], trace = []\<rparr> = Inr ([], w') \<and>
         device w' = [(8, Finite 1)] \<and>
         sdk_calls (trace w') = [(0x1A2B3C4D, 8, Finite 1)])"
proof -
  have r: "read_inputs LLP64 scenario = Inr (0x1A2B3C4D, 8, Finite 1)"
    by (rule read_scenario)
  from C8_device_frame [OF r, of
      "\<lparr>dcamprop_setvalue = (\<lambda>dev h p v. (0, (p, v) # dev)), failed = (\<lambda>c. sint c < 0)\<rparr>"
      0 "[]" 3 "\<lparr>device = [], trace = []\<rparr>"]
  have "\<exists>w'. mexFunction LLP64
           \<lparr>dcamprop_setvalue = (\<lambda>dev h p v. (0, (p, v) # dev)), failed = (\<lambda>c. sint c < 0)\<rparr>
           0 [] 3 scenario \<lparr>device = [], trace = []\<rparr> = Inr ([], w') \<and>
         device w' = [(8, Finite 1)] \<and>
         sdk_calls (trace w') = [(0x1A2B3C4D, 8, Finite 1)]"
    by simp
  with r show ?thesis by blast
qed

subsection \<open>C9: the number of inputs is not inspected\<close>

text \<open>
  C9. The shim never inspects \<open>nrhs\<close> and reads the first three input slots
  unconditionally: the run does not depend on \<open>nrhs\<close>; with fewer than three inputs
  supplied it always ends in a fault; and with none supplied the fault is the read of
  \<^verbatim>\<open>prhs[0]\<close> outside the argument list.
\<close>

theorem C9_inputs_not_counted:
  "mexFunction dm sdk nlhs plhs nrhs prhs w = mexFunction dm sdk nlhs plhs nrhs' prhs w \<and>
   (length prhs < 3 \<longrightarrow> (\<exists>f. mexFunction dm sdk nlhs plhs nrhs prhs w = Inl f)) \<and>
   mexFunction dm sdk nlhs plhs nrhs [] w = Inl (Input_out_of_range 0)"
proof (intro conjI impI)
  show "mexFunction dm sdk nlhs plhs nrhs prhs w = mexFunction dm sdk nlhs plhs nrhs' prhs w"
    by (simp add: mexFunction_def)
next
  assume "length prhs < 3"
  then obtain f where "read_inputs dm prhs = Inl f"
    using read_inputs_short by blast
  then show "\<exists>f. mexFunction dm sdk nlhs plhs nrhs prhs w = Inl f"
    by (simp add: mexFunction_fault)
next
  have "read_inputs dm [] = Inl (Input_out_of_range 0)"
    by (simp add: read_inputs_def prhs_at_def and_then_def)
  then show "mexFunction dm sdk nlhs plhs nrhs [] w = Inl (Input_out_of_range 0)"
    by (rule mexFunction_fault)
qed

theorem C9_inputs_not_counted_witness:
  "length [MxUint64 [0x1A2B3C4D], MxDouble [Finite 8]] < 3 \<and>
   mexFunction LLP64 (mock_sdk 0) 0 [] 3 [MxUint64 [0x1A2B3C4D], MxDouble [Finite 8]] idle
     = Inl (Input_out_of_range 2) \<and>
   mexFunction LLP64 (mock_sdk 0) 0 [] 3 [] idle = Inl (Input_out_of_range 0)"
proof -
  have "read_inputs LLP64 [MxUint64 [0x1A2B3C4D], MxDouble [Finite 8]] = Inl (Input_out_of_range 2)"
    by (simp add: read_inputs_def prhs_at_def and_then_def read_ulong0_uint64 mxGetScalar_def
          first_elem_def int32_of_double_def trunc_toward_zero_def)
  then have "mexFunction LLP64 (mock_sdk 0) 0 [] 3 [MxUint64 [0x1A2B3C4D], MxDouble [Finite 8]] idle
     = Inl (Input_out_of_range 2)"
    by (rule mexFunction_fault)
  with C9_inputs_not_counted [of LLP64 "mock_sdk 0" 0 "[]" 3
        "[MxUint64 [0x1A2B3C4D], MxDouble [Finite 8]]" idle 3]
  show ?thesis by simp
qed

subsection \<open>C10: determinism\<close>

lemma observation_read:
  "read_inputs dm prhs = Inr (h, p, v) \<Longrightarrow>
   observation w (mexFunction dm sdk nlhs plhs nrhs prhs w) =
     Inr (Dcamprop_setvalue h p v #
       (if failed sdk (fst (dcamprop_setvalue sdk (device w) h p v))
        then [MexPrintf (error_message (fst (dcamprop_setvalue sdk (device w) h p v)))]
        else []))"
  by (simp add: mexFunction_read observation_def trace_call_sdk)

lemma observation_fault:
  "read_inputs dm prhs = Inl f \<Longrightarrow>
   observation w (mexFunction dm sdk nlhs plhs nrhs prhs w) = Inl f"
  by (simp add: mexFunction_fault observation_def)

text \<open>
  C10. The shim is deterministic: two runs given equal input triples, with SDKs that agree
  on \<open>failed\<close> and return the same result code for the call, show the same behaviour (the
  same fault, or the same SDK call followed by the same diagnostic, if any), whatever the
  other parameters, the device states and the earlier traces are.
\<close>

theorem C10_deterministic:
  assumes "take 3 prhs1 = take 3 prhs2"
    and "failed sdk1 = failed sdk2"
    and "\<forall>h p v. read_inputs dm prhs1 = Inr (h, p, v) \<longrightarrow>
           fst (dcamprop_setvalue sdk1 (device w1) h p v)
             = fst (dcamprop_setvalue sdk2 (device w2) h p v)"
  shows "observation w1 (mexFunction dm sdk1 nlhs1 plhs1 nrhs1 prhs1 w1)
           = observation w2 (mexFunction dm sdk2 nlhs2 plhs2 nrhs2 prhs2 w2)"
proof -
  have same: "read_inputs dm prhs1 = read_inputs dm prhs2"
    using assms(1) read_inputs_take [of dm prhs1] read_inputs_take [of dm prhs2] by simp
  show ?thesis
  proof (cases "read_inputs dm prhs1")
    case (Inl f)
    with same have "read_inputs dm prhs2 = Inl f" by simp
    with Inl show ?thesis by (simp only: observation_fault)
  next
    case (Inr t)
    then obtain h p v where r1: "read_inputs dm prhs1 = Inr (h, p, v)"
      by (cases t) simp
    with same have r2: "read_inputs dm prhs2 = Inr (h, p, v)" by simp
    from assms(3) r1 have "fst (dcamprop_setvalue sdk1 (device w1) h p v)
             = fst (dcamprop_setvalue sdk2 (device w2) h p v)" by blast
    then show ?thesis
      by (simp add: observation_read [OF r1] observation_read [OF r2] assms(2))
  qed
qed

theorem C10_deterministic_witness:
  "take 3 scenario = take 3 (scenario @ [MxOther]) \<and>
   observation idle (mexFunction LLP64 (mock_sdk 0x80000001) 0 [] 3 scenario idle)
     = observation \<lparr>device = (), trace = [MexPrintf ''earlier'']\<rparr>
         (mexFunction LLP64 (mock_sdk 0x80000001) 1 [None] 4 (scenario @ [MxOther])
            \<lparr>device = (), trace = [MexPrintf ''earlier'']\<rparr>)"
  using C10_deterministic [of scenario "scenario @ [MxOther]" "mock_sdk 0x80000001"
      "mock_sdk 0x80000001" LLP64 idle "\<lparr>device = (), trace = [MexPrintf ''earlier'']\<rparr>"
      0 "[]" 3 1 "[None]" 4]
  by (simp add: scenario_def mock_sdk_simps)

end
